theory Spec2Isabelle
  imports Main "HOL-Library.Sublist"
begin

section \<open>JavaScript strings and numbers, as far as the job board uses them\<close>

text \<open>
  A JavaScript string is a sequence of UTF-16 code units. The model has the code units
  below 256, one \<^typ>\<open>char\<close> each, so \<open>length\<close> is the \<open>.length\<close> of the source.

  \<open>String.prototype.toLowerCase\<close> maps, among those code units, \<open>A..Z\<close> (65..90) and the
  Latin-1 capitals 192..222 other than the multiplication sign 215 to the code unit 32
  above, and leaves every other one alone.
\<close>

definition lower_char :: "char \<Rightarrow> char" where
  "lower_char c =
     (let n = (of_char c :: nat)
      in if (65 \<le> n \<and> n \<le> 90) \<or> (192 \<le> n \<and> n \<le> 222 \<and> n \<noteq> 215)
         then char_of (n + 32) else c)"

definition toLowerCase :: "string \<Rightarrow> string" where
  "toLowerCase s = map lower_char s"

text \<open>\<open>s.includes(q)\<close>: \<open>q\<close> occurs in \<open>s\<close> as a contiguous run, at some position.\<close>

fun str_includes :: "string \<Rightarrow> string \<Rightarrow> bool" where
  "str_includes [] q = (q = [])"
| "str_includes (c # cs) q = (prefix q (c # cs) \<or> str_includes cs q)"

text \<open>
  \<open>parseInt(s)\<close> with no radix: leading white space is dropped, then one sign, then the
  prefix \<open>0x\<close> or \<open>0X\<close> selects radix 16; the longest run of digits of the radix is the value,
  and an empty run is \<open>NaN\<close> (here \<open>None\<close>). What follows the digits is ignored. The result
  is an integer; the model keeps it exact (the source rounds beyond \<open>2^53\<close>).
\<close>

definition isWhiteSpace :: "char \<Rightarrow> bool" where
  "isWhiteSpace c = ((of_char c :: nat) \<in> {9, 10, 11, 12, 13, 32, 160})"

definition digitValue :: "char \<Rightarrow> nat option" where
  "digitValue c =
     (let n = (of_char c :: nat)
      in if 48 \<le> n \<and> n \<le> 57 then Some (n - 48)
         else if 97 \<le> n \<and> n \<le> 102 then Some (n - 87)
         else if 65 \<le> n \<and> n \<le> 70 then Some (n - 55)
         else None)"

definition isRadixDigit :: "nat \<Rightarrow> char \<Rightarrow> bool" where
  "isRadixDigit R c = (case digitValue c of None \<Rightarrow> False | Some d \<Rightarrow> d < R)"

definition digitsValue :: "nat \<Rightarrow> string \<Rightarrow> nat" where
  "digitsValue R ds = foldl (\<lambda>acc c. acc * R + (case digitValue c of None \<Rightarrow> 0 | Some d \<Rightarrow> d)) 0 ds"

definition parseDigits :: "nat \<Rightarrow> string \<Rightarrow> nat option" where
  "parseDigits R s =
     (let Z = takeWhile (isRadixDigit R) s
      in if Z = [] then None else Some (digitsValue R Z))"

definition parseInt :: "string \<Rightarrow> int option" where
  "parseInt inputString =
     (let S = dropWhile isWhiteSpace inputString;
          sign = (if prefix ''-'' S then - 1 else (1::int));
          S1 = (if prefix ''+'' S \<or> prefix ''-'' S then tl S else S);
          hex = (prefix ''0x'' S1 \<or> prefix ''0X'' S1);
          R = (if hex then 16 else 10);
          S2 = (if hex then drop 2 S1 else S1)
      in map_option (\<lambda>n. sign * int n) (parseDigits R S2))"

section \<open>The data model (\<open>App.tsx\<close>)\<close>

text \<open>
  The interface \<open>Job\<close>. An optional field is an \<open>option\<close>; the salaries are the integers
  that \<open>PostJobModal\<close> stores through \<open>parseInt\<close>. The type of \<open>tags\<close> is a parameter:
  the interface declares \<open>string[]\<close>, which is what the board works on, while \<open>loadJobs\<close>
  stores whatever \<open>JSON.parse\<close> returned.
\<close>

datatype applicationType = Email | Link

record 'tags Job =
  id :: string
  title :: string
  company :: string
  location :: string
  salaryMin :: "int option"
  salaryMax :: "int option"
  salaryCurrency :: string
  description :: string
  requirements :: "string option"
  benefits :: "string option"
  employmentType :: string
  experienceLevel :: string
  applicationType :: applicationType
  applicationEmail :: "string option"
  applicationLink :: "string option"
  tags :: 'tags
  userId :: string
  createdAt :: string
  updatedAt :: string

record SavedJob =
  save_id :: string
  jobId :: string
  save_userId :: string
  save_createdAt :: string

section \<open>The filter engine (\<open>JobBoard.tsx\<close>)\<close>

text \<open>The five filter states of the component, each a string, \<open>''''\<close> at the start.\<close>

record FilterState =
  searchQuery :: string
  locationFilter :: string
  employmentTypeFilter :: string
  experienceLevelFilter :: string
  salaryMinFilter :: string

definition initialFilters :: FilterState where
  "initialFilters =
     \<lparr>searchQuery = '''', locationFilter = '''', employmentTypeFilter = '''',
      experienceLevelFilter = '''', salaryMinFilter = ''''\<rparr>"

text \<open>The state setters that the inputs of the board call, and \<open>clearFilters\<close>.\<close>

datatype filterChange =
    SetSearchQuery string
  | SetLocationFilter string
  | SetEmploymentTypeFilter string
  | SetExperienceLevelFilter string
  | SetSalaryMinFilter string

fun applyChange :: "FilterState \<Rightarrow> filterChange \<Rightarrow> FilterState" where
  "applyChange fs (SetSearchQuery v) = fs\<lparr>searchQuery := v\<rparr>"
| "applyChange fs (SetLocationFilter v) = fs\<lparr>locationFilter := v\<rparr>"
| "applyChange fs (SetEmploymentTypeFilter v) = fs\<lparr>employmentTypeFilter := v\<rparr>"
| "applyChange fs (SetExperienceLevelFilter v) = fs\<lparr>experienceLevelFilter := v\<rparr>"
| "applyChange fs (SetSalaryMinFilter v) = fs\<lparr>salaryMinFilter := v\<rparr>"

definition clearFilters :: "FilterState \<Rightarrow> FilterState" where
  "clearFilters fs =
     fs\<lparr>searchQuery := '''', locationFilter := '''', employmentTypeFilter := '''',
        experienceLevelFilter := '''', salaryMinFilter := ''''\<rparr>"

text \<open>
  The callback of \<open>jobs.filter\<close>, one definition for each \<open>const\<close> of the source. \<open>!s\<close>
  on a string is \<open>s = ''''\<close>; \<open>job.salaryMin && ...\<close> is false when the salary is
  \<open>undefined\<close> and also when it is \<open>0\<close>; a comparison with \<open>NaN\<close> is false.
\<close>

definition matchesSearch :: "string list Job \<Rightarrow> string \<Rightarrow> bool" where
  "matchesSearch job q =
     (q = '''' \<or>
      str_includes (toLowerCase (title job)) (toLowerCase q) \<or>
      str_includes (toLowerCase (company job)) (toLowerCase q) \<or>
      str_includes (toLowerCase (description job)) (toLowerCase q) \<or>
      list_ex (\<lambda>tag. str_includes (toLowerCase tag) (toLowerCase q)) (tags job))"

definition matchesLocation :: "string list Job \<Rightarrow> string \<Rightarrow> bool" where
  "matchesLocation job f = (f = '''' \<or> location job = f)"

definition matchesEmploymentType :: "string list Job \<Rightarrow> string \<Rightarrow> bool" where
  "matchesEmploymentType job f = (f = '''' \<or> employmentType job = f)"

definition matchesExperienceLevel :: "string list Job \<Rightarrow> string \<Rightarrow> bool" where
  "matchesExperienceLevel job f = (f = '''' \<or> experienceLevel job = f)"

definition matchesSalary :: "string list Job \<Rightarrow> string \<Rightarrow> bool" where
  "matchesSalary job f =
     (f = '''' \<or>
      (case salaryMin job of
         None \<Rightarrow> False
       | Some m \<Rightarrow>
           m \<noteq> 0 \<and> (case parseInt f of None \<Rightarrow> False | Some t \<Rightarrow> m \<ge> t)))"

definition passes :: "FilterState \<Rightarrow> string list Job \<Rightarrow> bool" where
  "passes fs job =
     (matchesSearch job (searchQuery fs) \<and> matchesLocation job (locationFilter fs) \<and>
      matchesEmploymentType job (employmentTypeFilter fs) \<and>
      matchesExperienceLevel job (experienceLevelFilter fs) \<and>
      matchesSalary job (salaryMinFilter fs))"

definition filteredJobs :: "string list Job list \<Rightarrow> FilterState \<Rightarrow> string list Job list" where
  "filteredJobs jobs fs = filter (passes fs) jobs"

text \<open>\<open>isJobSaved\<close>: some mark of the saved list has this job id.\<close>

definition isJobSaved :: "SavedJob list \<Rightarrow> string \<Rightarrow> bool" where
  "isJobSaved savedJobs jid = list_ex (\<lambda>save. jobId save = jid) savedJobs"

section \<open>\<open>JSON.parse\<close>\<close>

text \<open>
  \<open>loadJobs\<close> reads the \<open>tags\<close> column with \<open>JSON.parse\<close>, which is part of the language and
  not of the repository. It is modelled by a recursive-descent parser of the JSON grammar
  of ECMA-404, which is the grammar \<open>JSON.parse\<close> accepts: white space is tab, line feed,
  carriage return and space; a string may not hold a raw code unit below 32; a number has
  no leading zero, and digits on both sides of its point. A number is kept as the text that
  was read. A \<open>\u\<close> escape gives the code unit it names; the strings of the model stop at
  code unit 255, and a higher one is kept modulo 256.
\<close>

datatype json =
    JNull
  | JBool bool
  | JNumber string
  | JString string
  | JArray "json list"
  | JObject "(string \<times> json) list"

text \<open>
  The result of a parsing function: the value and the rest of the input, or a syntax
  error. Nested values are parsed with fuel, so that the recursion is structural;
  \<open>OutOfFuel\<close> is a result of its own, and \<open>parse_fuel\<close> below shows that the fuel
  \<open>JSON_parse\<close> starts with is never used up.
\<close>

datatype 'a parsed = OutOfFuel | SyntaxErr | Parsed 'a string

definition isJsonWhiteSpace :: "char \<Rightarrow> bool" where
  "isJsonWhiteSpace c = ((of_char c :: nat) \<in> {9, 10, 13, 32})"

definition skipWs :: "string \<Rightarrow> string" where
  "skipWs cs = dropWhile isJsonWhiteSpace cs"

definition unescape :: "char \<Rightarrow> char option" where
  "unescape e =
     (if e = CHR 0x22 then Some (CHR 0x22)
      else if e = CHR 0x5C then Some (CHR 0x5C)
      else if e = CHR ''/'' then Some (CHR ''/'')
      else if e = CHR ''b'' then Some (CHR 0x08)
      else if e = CHR ''f'' then Some (CHR 0x0C)
      else if e = CHR ''n'' then Some (CHR 0x0A)
      else if e = CHR ''r'' then Some (CHR 0x0D)
      else if e = CHR ''t'' then Some (CHR 0x09)
      else None)"

definition hex4 :: "string \<Rightarrow> nat option" where
  "hex4 cs =
     (let h = take 4 cs
      in if length h = 4 \<and> list_all (isRadixDigit 16) h then Some (digitsValue 16 h) else None)"

definition consChar :: "char \<Rightarrow> (string \<times> string) option \<Rightarrow> (string \<times> string) option" where
  "consChar c res = map_option (\<lambda>(s, r). (c # s, r)) res"

text \<open>
  The characters of a string, after its opening quote, up to the closing quote: the
  string read and the input after it.
\<close>

fun parseChars :: "string \<Rightarrow> (string \<times> string) option" where
  "parseChars [] = None"
| "parseChars [c] = (if c = CHR 0x22 then Some ([], []) else None)"
| "parseChars (c # e # cs) =
     (if c = CHR 0x22 then Some ([], e # cs)
      else if c = CHR 0x5C then
        (if e = CHR ''u'' then
           (case hex4 cs of
              None \<Rightarrow> None
            | Some n \<Rightarrow> consChar (char_of n) (parseChars (drop 4 cs)))
         else
           (case unescape e of
              None \<Rightarrow> None
            | Some d \<Rightarrow> consChar d (parseChars cs)))
      else if (of_char c :: nat) < 32 then None
      else consChar c (parseChars (e # cs)))"

definition isDigit :: "char \<Rightarrow> bool" where
  "isDigit c = isRadixDigit 10 c"

text \<open>
  A number, as the count of characters it takes: sign, integer part, fraction, exponent.
\<close>

definition digitsLength :: "string \<Rightarrow> nat" where
  "digitsLength cs = length (takeWhile isDigit cs)"

definition intLength :: "string \<Rightarrow> nat option" where
  "intLength cs =
     (if prefix ''0'' cs then Some 1
      else if digitsLength cs = 0 then None else Some (digitsLength cs))"

definition fracLength :: "string \<Rightarrow> nat option" where
  "fracLength cs =
     (if prefix ''.'' cs then
        (if digitsLength (tl cs) = 0 then None else Some (1 + digitsLength (tl cs)))
      else Some 0)"

definition expLength :: "string \<Rightarrow> nat option" where
  "expLength cs =
     (if prefix ''e'' cs \<or> prefix ''E'' cs then
        (let s = (if prefix ''+'' (tl cs) \<or> prefix ''-'' (tl cs) then 1 else 0);
             d = digitsLength (drop (1 + s) cs)
         in if d = 0 then None else Some (1 + s + d))
      else Some 0)"

definition numberLength :: "string \<Rightarrow> nat option" where
  "numberLength cs =
     (let a = (if prefix ''-'' cs then 1 else 0)
      in case intLength (drop a cs) of
           None \<Rightarrow> None
         | Some b \<Rightarrow>
             (case fracLength (drop (a + b) cs) of
                None \<Rightarrow> None
              | Some c \<Rightarrow>
                  (case expLength (drop (a + b + c) cs) of
                     None \<Rightarrow> None
                   | Some d \<Rightarrow> Some (a + b + c + d))))"

definition parseNumber :: "string \<Rightarrow> json parsed" where
  "parseNumber cs =
     (case numberLength cs of
        None \<Rightarrow> SyntaxErr
      | Some n \<Rightarrow> Parsed (JNumber (take n cs)) (drop n cs))"

definition parseLiteral :: "string \<Rightarrow> json parsed" where
  "parseLiteral cs =
     (if prefix ''null'' cs then Parsed JNull (drop 4 cs)
      else if prefix ''true'' cs then Parsed (JBool True) (drop 4 cs)
      else if prefix ''false'' cs then Parsed (JBool False) (drop 5 cs)
      else SyntaxErr)"

text \<open>
  A value, the elements of an array after \<open>[\<close> or a comma, and the members of an object
  after \<open>{\<close> or a comma.
\<close>

fun parseValue :: "nat \<Rightarrow> string \<Rightarrow> json parsed"
  and parseElements :: "nat \<Rightarrow> json list \<Rightarrow> string \<Rightarrow> json parsed"
  and parseMembers :: "nat \<Rightarrow> (string \<times> json) list \<Rightarrow> string \<Rightarrow> json parsed"
where
  "parseValue 0 cs = OutOfFuel"
| "parseValue (Suc n) cs =
     (case skipWs cs of
        [] \<Rightarrow> SyntaxErr
      | c # r \<Rightarrow>
          if c = CHR 0x22 then
            (case parseChars r of
               None \<Rightarrow> SyntaxErr
             | Some (s, r') \<Rightarrow> Parsed (JString s) r')
          else if c = CHR ''['' then
            (if prefix '']'' (skipWs r) then Parsed (JArray []) (tl (skipWs r))
             else parseElements n [] r)
          else if c = CHR ''{'' then
            (if prefix ''}'' (skipWs r) then Parsed (JObject []) (tl (skipWs r))
             else parseMembers n [] r)
          else if c = CHR ''-'' \<or> isDigit c then parseNumber (c # r)
          else parseLiteral (c # r))"
| "parseElements 0 acc cs = OutOfFuel"
| "parseElements (Suc n) acc cs =
     (case parseValue n cs of
        Parsed v r \<Rightarrow>
          (case skipWs r of
             [] \<Rightarrow> SyntaxErr
           | d # r' \<Rightarrow>
               if d = CHR '','' then parseElements n (acc @ [v]) r'
               else if d = CHR '']'' then Parsed (JArray (acc @ [v])) r'
               else SyntaxErr)
      | OutOfFuel \<Rightarrow> OutOfFuel
      | SyntaxErr \<Rightarrow> SyntaxErr)"
| "parseMembers 0 acc cs = OutOfFuel"
| "parseMembers (Suc n) acc cs =
     (case skipWs cs of
        [] \<Rightarrow> SyntaxErr
      | q # r \<Rightarrow>
          if q \<noteq> CHR 0x22 then SyntaxErr
          else
            (case parseChars r of
               None \<Rightarrow> SyntaxErr
             | Some (k, r1) \<Rightarrow>
                 (case skipWs r1 of
                    [] \<Rightarrow> SyntaxErr
                  | col # r2 \<Rightarrow>
                      if col \<noteq> CHR '':'' then SyntaxErr
                      else
                        (case parseValue n r2 of
                           Parsed v r3 \<Rightarrow>
                             (case skipWs r3 of
                                [] \<Rightarrow> SyntaxErr
                              | d # r4 \<Rightarrow>
                                  if d = CHR '','' then parseMembers n (acc @ [(k, v)]) r4
                                  else if d = CHR ''}'' then Parsed (JObject (acc @ [(k, v)])) r4
                                  else SyntaxErr)
                         | OutOfFuel \<Rightarrow> OutOfFuel
                         | SyntaxErr \<Rightarrow> SyntaxErr))))"

text \<open>
  What a \<open>try\<close> block of the application can catch: the \<open>SyntaxError\<close> of \<open>JSON.parse\<close>,
  a \<open>TypeError\<close> (a property read on \<open>null\<close> or \<open>undefined\<close>), and the rejection of a
  store call. \<open>JSON.parse\<close> accepts a text that is one value between optional white space.
\<close>

datatype jsError = SyntaxError | TypeError | Rejection

definition JSON_parse :: "string \<Rightarrow> jsError + json" where
  "JSON_parse text =
     (case parseValue (2 * length text + 1) text of
        Parsed v r \<Rightarrow> if skipWs r = [] then Inr v else Inl SyntaxError
      | SyntaxErr \<Rightarrow> Inl SyntaxError
      | OutOfFuel \<Rightarrow> Inl SyntaxError)"

section \<open>The application state and its handlers (\<open>App.tsx\<close>)\<close>

text \<open>
  The user of the auth state, and the rows of the two store tables as \<open>list\<close> and \<open>create\<close>
  return them (snake case, read by \<open>loadJobs\<close>, \<open>loadSavedJobs\<close> and \<open>handleSaveJob\<close>). The
  fields \<open>row_...\<close> of a job row are the columns whose names the interface \<open>Job\<close> keeps:
  the spread \<open>...job\<close> copies them, and \<open>tags\<close> is then replaced by its parsed value.
\<close>

record User =
  uid :: string
  email :: string

record JobRow =
  row_id :: string
  row_title :: string
  row_company :: string
  row_location :: string
  row_description :: string
  row_requirements :: "string option"
  row_benefits :: "string option"
  row_tags :: "string option"
  salary_min :: "int option"
  salary_max :: "int option"
  salary_currency :: "string option"
  employment_type :: string
  experience_level :: string
  application_type :: applicationType
  application_email :: "string option"
  application_link :: "string option"
  user_id :: string
  created_at :: string
  updated_at :: string

record SavedJobRow =
  saved_id :: string
  job_id :: string
  saved_user_id :: string
  saved_created_at :: string

text \<open>
  The store is outside the repository: the outcome of each call is an input of the
  model. A promise settles as rejected or as fulfilled with a value.
\<close>

datatype 'a settled = Rejected | Fulfilled 'a

text \<open>
  What a handler does besides changing the state, in order: the store calls it issues,
  the toasts it shows and its \<open>console.error\<close> lines.
\<close>

record Toast =
  toast_title :: string
  toast_description :: string
  destructive :: bool

datatype effect =
    ListJobs
  | ListSavedJobs string
  | DeleteSavedJob string
  | CreateSavedJob string string string
  | ShowToast Toast
  | ConsoleError string

text \<open>
  The state of \<open>App\<close> that the handlers read and write. The four states that open and
  close dialogs are left out: no handler below reads them.
\<close>

record AppState =
  user :: "User option"
  loading :: bool
  jobs :: "json Job list"
  savedJobs :: "SavedJob list"



text \<open>
  \<open>loadJobs\<close>. \<open>job.tags ? JSON.parse(job.tags) : []\<close>: a missing value and the empty string
  are falsy; any other string goes to \<open>JSON.parse\<close>, whose exception leaves the \<open>map\<close> and
  reaches the \<open>catch\<close> of \<open>loadJobs\<close>, so that \<open>setJobs\<close> is not called.
\<close>

definition parseTags :: "string option \<Rightarrow> jsError + json" where
  "parseTags t =
     (case t of
        None \<Rightarrow> Inr (JArray [])
      | Some text \<Rightarrow> if text = '''' then Inr (JArray []) else JSON_parse text)"

definition orUSD :: "string option \<Rightarrow> string" where
  "orUSD c = (case c of None \<Rightarrow> ''USD'' | Some v \<Rightarrow> if v = '''' then ''USD'' else v)"

definition formatJob :: "JobRow \<Rightarrow> jsError + json Job" where
  "formatJob job =
     (case parseTags (row_tags job) of
        Inl e \<Rightarrow> Inl e
      | Inr parsedTags \<Rightarrow>
          Inr \<lparr>id = row_id job, title = row_title job, company = row_company job,
               location = row_location job,
               salaryMin = salary_min job, salaryMax = salary_max job,
               salaryCurrency = orUSD (salary_currency job),
               description = row_description job,
               requirements = row_requirements job, benefits = row_benefits job,
               employmentType = employment_type job, experienceLevel = experience_level job,
               applicationType = application_type job,
               applicationEmail = application_email job,
               applicationLink = application_link job,
               tags = parsedTags, userId = user_id job,
               createdAt = created_at job, updatedAt = updated_at job\<rparr>)"

fun formatJobs :: "JobRow list \<Rightarrow> jsError + json Job list" where
  "formatJobs [] = Inr []"
| "formatJobs (job # rest) =
     (case formatJob job of
        Inl e \<Rightarrow> Inl e
      | Inr j \<Rightarrow> (case formatJobs rest of Inl e \<Rightarrow> Inl e | Inr js \<Rightarrow> Inr (j # js)))"

definition loadJobsFailed :: "effect list" where
  "loadJobsFailed =
     [ConsoleError ''Error loading jobs:'',
      ShowToast \<lparr>toast_title = ''Error'', toast_description = ''Failed to load jobs'',
                 destructive = True\<rparr>]"

definition loadJobs :: "JobRow list settled \<Rightarrow> AppState \<Rightarrow> AppState \<times> effect list" where
  "loadJobs reply s =
     (case reply of
        Rejected \<Rightarrow> (s, ListJobs # loadJobsFailed)
      | Fulfilled jobsData \<Rightarrow>
          (case formatJobs jobsData of
             Inl e \<Rightarrow> (s, ListJobs # loadJobsFailed)
           | Inr formattedJobs \<Rightarrow> (s\<lparr>jobs := formattedJobs\<rparr>, [ListJobs])))"

text \<open>
  \<open>loadSavedJobs\<close>. With no user, \<open>user.id\<close> throws inside the \<open>try\<close> and the catch logs
  it; otherwise the rows the store returns replace the saved list, one mark for each row.
\<close>

definition formatSavedJob :: "SavedJobRow \<Rightarrow> SavedJob" where
  "formatSavedJob savedJob =
     \<lparr>save_id = saved_id savedJob, jobId = job_id savedJob,
      save_userId = saved_user_id savedJob, save_createdAt = saved_created_at savedJob\<rparr>"

definition loadSavedJobs :: "SavedJobRow list settled \<Rightarrow> AppState \<Rightarrow> AppState \<times> effect list" where
  "loadSavedJobs reply s =
     (case user s of
        None \<Rightarrow> (s, [ConsoleError ''Error loading saved jobs:''])
      | Some u \<Rightarrow>
          (case reply of
             Rejected \<Rightarrow>
               (s, [ListSavedJobs (uid u), ConsoleError ''Error loading saved jobs:''])
           | Fulfilled savedJobsData \<Rightarrow>
               (s\<lparr>savedJobs := map formatSavedJob savedJobsData\<rparr>, [ListSavedJobs (uid u)])))"

text \<open>
  \<open>handleSaveJob\<close> is an \<open>async\<close> function with one \<open>await\<close>. \<open>handleSaveJob_call\<close> is the
  part before it: it reads \<open>user\<close> and \<open>savedJobs\<close>, issues the store call and returns the
  state (unchanged: no state setter runs before the \<open>await\<close>) with what it waits for.
  \<open>handleSaveJob_settle\<close> is the part after the \<open>await\<close>, run on the state of that moment,
  which is what the functional updates \<open>setSavedJobs(prev => ...)\<close> receive. \<open>handleSaveJob\<close>
  is the two in a row, with nothing in between. The new identity is built from
  \<open>Date.now()\<close> and \<open>Math.random()\<close>, both inputs here. A \<open>create\<close> that fulfils with no
  row makes \<open>newSave.id\<close> throw, which the same \<open>catch\<close> handles.
\<close>

datatype saveAwait = Returned | AwaitDelete SavedJob | AwaitCreate

definition newSaveId :: "string \<Rightarrow> string \<Rightarrow> string" where
  "newSaveId now rnd = ''save_'' @ now @ ''_'' @ rnd"

definition handleSaveJob_call ::
  "AppState \<Rightarrow> string \<Rightarrow> string \<Rightarrow> string \<Rightarrow> AppState \<times> saveAwait \<times> effect list" where
  "handleSaveJob_call s jid now rnd =
     (case user s of
        None \<Rightarrow> (s, Returned, [])
      | Some u \<Rightarrow>
          (case find (\<lambda>save. jobId save = jid) (savedJobs s) of
             Some existingSave \<Rightarrow>
               (s, AwaitDelete existingSave, [DeleteSavedJob (save_id existingSave)])
           | None \<Rightarrow>
               (s, AwaitCreate, [CreateSavedJob (newSaveId now rnd) jid (uid u)])))"

definition saveFailed :: "effect list" where
  "saveFailed =
     [ConsoleError ''Error saving job:'',
      ShowToast \<lparr>toast_title = ''Error'', toast_description = ''Failed to save job'',
                 destructive = True\<rparr>]"

definition jobUnsaved :: "effect list" where
  "jobUnsaved =
     [ShowToast \<lparr>toast_title = ''Job unsaved'',
                 toast_description = ''Job removed from saved jobs'', destructive = False\<rparr>]"

definition jobSaved :: "effect list" where
  "jobSaved =
     [ShowToast \<lparr>toast_title = ''Job saved'',
                 toast_description = ''Job added to saved jobs'', destructive = False\<rparr>]"

fun handleSaveJob_settle ::
  "saveAwait \<Rightarrow> SavedJobRow option settled \<Rightarrow> AppState \<Rightarrow> AppState \<times> effect list" where
  "handleSaveJob_settle Returned reply s = (s, [])"
| "handleSaveJob_settle (AwaitDelete existingSave) Rejected s = (s, saveFailed)"
| "handleSaveJob_settle (AwaitDelete existingSave) (Fulfilled v) s =
     (s\<lparr>savedJobs := filter (\<lambda>save. save_id save \<noteq> save_id existingSave) (savedJobs s)\<rparr>,
      jobUnsaved)"
| "handleSaveJob_settle AwaitCreate Rejected s = (s, saveFailed)"
| "handleSaveJob_settle AwaitCreate (Fulfilled None) s = (s, saveFailed)"
| "handleSaveJob_settle AwaitCreate (Fulfilled (Some newSave)) s =
     (s\<lparr>savedJobs := savedJobs s @ [formatSavedJob newSave]\<rparr>, jobSaved)"

definition handleSaveJob ::
  "AppState \<Rightarrow> string \<Rightarrow> string \<Rightarrow> string \<Rightarrow> SavedJobRow option settled
     \<Rightarrow> AppState \<times> effect list" where
  "handleSaveJob s jid now rnd reply =
     (case handleSaveJob_call s jid now rnd of
        (s1, pending, issued) \<Rightarrow>
          (case handleSaveJob_settle pending reply s1 of
             (s2, shown) \<Rightarrow> (s2, issued @ shown)))"


section \<open>Notions of the specification\<close>

text \<open>
  \<open>handleSaveJob\<close> returns no value: the errors it reports are its destructive toasts and
  its \<open>console.error\<close> lines.
\<close>

fun isError :: "effect \<Rightarrow> bool" where
  "isError (ShowToast t) = destructive t"
| "isError (ConsoleError m) = True"
| "isError e = False"

text \<open>
  The invariant of the specification: at most one mark for each pair of user and job.
  The marks of one user. Containment of a string up to case, stated with positions and
  without \<open>toLowerCase\<close> of a whole string.
\<close>

definition onePerPair :: "SavedJob list \<Rightarrow> bool" where
  "onePerPair marks = distinct (map (\<lambda>m. (save_userId m, jobId m)) marks)"





section \<open>Example data\<close>

definition exampleJob :: "string list Job" where
  "exampleJob =
     \<lparr>id = ''job_1'', title = ''Frontend Engineer'', company = ''Acme'', location = ''Remote'',
      salaryMin = None, salaryMax = Some 60000, salaryCurrency = ''USD'',
      description = ''Build user interfaces'', requirements = None, benefits = None,
      employmentType = ''Full-time'', experienceLevel = ''Senior'', applicationType = Email,
      applicationEmail = Some ''jobs@acme.test'', applicationLink = None,
      tags = [''React'', ''TypeScript''], userId = ''u1'',
      createdAt = ''2024-01-01'', updatedAt = ''2024-01-01''\<rparr>"

definition alice :: User where
  "alice = \<lparr>uid = ''user_alice'', email = ''alice@example.test''\<rparr>"


definition aliceMark :: SavedJob where
  "aliceMark =
     \<lparr>save_id = ''save_1'', jobId = ''job_1'', save_userId = ''user_alice'',
      save_createdAt = ''2024-01-02''\<rparr>"

definition aliceRow :: SavedJobRow where
  "aliceRow =
     \<lparr>saved_id = ''save_1'', job_id = ''job_1'', saved_user_id = ''user_alice'',
      saved_created_at = ''2024-01-02''\<rparr>"

definition aliceRow2 :: SavedJobRow where
  "aliceRow2 =
     \<lparr>saved_id = ''save_2'', job_id = ''job_1'', saved_user_id = ''user_alice'',
      saved_created_at = ''2024-01-03''\<rparr>"

definition signedIn :: "User \<Rightarrow> SavedJob list \<Rightarrow> AppState" where
  "signedIn u marks = \<lparr>user = Some u, loading = False, jobs = [], savedJobs = marks\<rparr>"

definition signedOut :: "SavedJob list \<Rightarrow> AppState" where
  "signedOut marks = \<lparr>user = None, loading = False, jobs = [], savedJobs = marks\<rparr>"

definition exampleRow :: JobRow where
  "exampleRow =
     \<lparr>row_id = ''job_1'', row_title = ''Frontend Engineer'', row_company = ''Acme'',
      row_location = ''Remote'', row_description = ''Build user interfaces'',
      row_requirements = None, row_benefits = None, row_tags = None,
      salary_min = None, salary_max = Some 60000, salary_currency = None,
      employment_type = ''Full-time'', experience_level = ''Senior'',
      application_type = Email, application_email = Some ''jobs@acme.test'',
      application_link = None, user_id = ''user_alice'',
      created_at = ''2024-01-01'', updated_at = ''2024-01-01''\<rparr>"


section \<open>Properties of the parser: progress and fuel\<close>

text \<open>
  Every parsing function that succeeds has consumed at least one character.
\<close>

lemma skipWs_length: "length (skipWs cs) \<le> length cs"
  by (simp add: skipWs_def length_dropWhile_le)

lemma skipWs_Cons_length: "skipWs cs = c # r \<Longrightarrow> length r < length cs"
  using skipWs_length [of cs] by simp

lemma parseChars_length: "parseChars cs = Some (s, r) \<Longrightarrow> length r < length cs"
proof (induction cs arbitrary: s rule: parseChars.induct)
  case 1
  then show ?case by simp
next
  case (2 c)
  then show ?case by (simp split: if_splits)
next
  case (3 c e cs)
  then show ?case
    by (fastforce simp: consChar_def split: if_splits option.splits)
qed

lemma intLength_pos: "intLength cs = Some b \<Longrightarrow> 0 < b"
  by (auto simp: intLength_def split: if_splits)

lemma numberLength_pos: "numberLength cs = Some n \<Longrightarrow> 0 < n"
  by (auto simp: numberLength_def Let_def split: option.splits dest: intLength_pos)

lemma parseNumber_length: "parseNumber (c # cs) = Parsed v r \<Longrightarrow> length r < Suc (length cs)"
  by (auto simp: parseNumber_def split: option.splits dest!: numberLength_pos)

lemma parseLiteral_length: "parseLiteral (c # cs) = Parsed v r \<Longrightarrow> length r < Suc (length cs)"
  by (auto simp: parseLiteral_def split: if_splits)

lemma parse_length:
  "parseValue n cs = Parsed v r \<Longrightarrow> length r < length cs"
  "parseElements n es cs = Parsed v r \<Longrightarrow> length r < length cs"
  "parseMembers n ms cs = Parsed v r \<Longrightarrow> length r < length cs"
proof (induction n cs and n es cs and n ms cs arbitrary: v r and v r and v r
    rule: parseValue_parseElements_parseMembers.induct)
  case (1 cs)
  then show ?case by simp
next
  case (2 n cs)
  show ?case
  proof (cases "skipWs cs")
    case Nil
    with 2 show ?thesis by simp
  next
    case (Cons c r0)
    note len = skipWs_Cons_length [OF Cons]
    show ?thesis
      using "2.prems" "2.IH"(1) [OF Cons] "2.IH"(2) [OF Cons] len
        skipWs_length [of r0]
      by (auto simp: Cons split: if_splits option.splits
          dest!: parseChars_length parseNumber_length parseLiteral_length)
  qed
next
  case (3 es cs)
  then show ?case by simp
next
  case (4 n es cs)
  then show ?case
    by (fastforce split: parsed.splits list.splits if_splits dest!: skipWs_Cons_length)
next
  case (5 ms cs)
  then show ?case by simp
next
  case (6 n ms cs)
  then show ?case
    by (fastforce split: parsed.splits list.splits if_splits option.splits
        dest!: skipWs_Cons_length parseChars_length)
qed


text \<open>
  Fuel above twice the length of the input is never used up, so \<open>JSON_parse\<close> never
  meets \<open>OutOfFuel\<close>: its error results are syntax errors of the text.
\<close>

lemma parse_fuel:
  "2 * length cs < n \<Longrightarrow> parseValue n cs \<noteq> OutOfFuel"
  "2 * length cs + 1 < n \<Longrightarrow> parseElements n es cs \<noteq> OutOfFuel"
  "2 * length cs + 1 < n \<Longrightarrow> parseMembers n ms cs \<noteq> OutOfFuel"
proof (induction n cs and n es cs and n ms cs
    rule: parseValue_parseElements_parseMembers.induct)
  case (1 cs)
  then show ?case by simp
next
  case (2 n cs)
  show ?case
  proof (cases "skipWs cs")
    case Nil
    then show ?thesis by simp
  next
    case (Cons c r0)
    note len = skipWs_Cons_length [OF Cons]
    show ?thesis
      using "2.prems" "2.IH"(1) [OF Cons] "2.IH"(2) [OF Cons] len
      by (auto simp: Cons parseNumber_def parseLiteral_def split: if_splits option.splits)
  qed
next
  case (3 es cs)
  then show ?case by simp
next
  case (4 n es cs)
  show ?case
  proof (cases "parseValue n cs")
    case OutOfFuel
    with 4 show ?thesis by simp
  next
    case SyntaxErr
    then show ?thesis by simp
  next
    case (Parsed v r)
    note l1 = parse_length(1) [OF Parsed]
    show ?thesis
    proof (cases "skipWs r")
      case Nil
      with Parsed show ?thesis by simp
    next
      case (Cons d r')
      note l2 = skipWs_Cons_length [OF Cons]
      show ?thesis
        using "4.prems" "4.IH"(2) [OF Parsed Cons] l1 l2
        by (auto simp: Parsed Cons)
    qed
  qed
next
  case (5 ms cs)
  then show ?case by simp
next
  case (6 n ms cs)
  show ?case
  proof (cases "skipWs cs")
    case Nil
    then show ?thesis by simp
  next
    case c1: (Cons q r)
    note l1 = skipWs_Cons_length [OF c1]
    show ?thesis
    proof (cases "q \<noteq> CHR 0x22")
      case True
      with c1 show ?thesis by simp
    next
      case q: False
      show ?thesis
      proof (cases "parseChars r")
        case None
        with c1 q show ?thesis by simp
      next
        case (Some kr)
        obtain k r1 where kr: "kr = (k, r1)" by (cases kr)
        note l2 = parseChars_length [OF Some [unfolded kr]]
        show ?thesis
        proof (cases "skipWs r1")
          case Nil
          with c1 q Some kr show ?thesis by simp
        next
          case c2: (Cons col r2)
          note l3 = skipWs_Cons_length [OF c2]
          show ?thesis
          proof (cases "col \<noteq> CHR '':''")
            case True
            with c1 q Some kr c2 show ?thesis by simp
          next
            case col: False
            show ?thesis
            proof (cases "parseValue n r2")
              case OutOfFuel
              with "6.IH"(1) [OF c1 q Some [unfolded kr] refl c2 col] "6.prems" l1 l2 l3
              show ?thesis by simp
            next
              case SyntaxErr
              with c1 q Some kr c2 col show ?thesis by simp
            next
              case (Parsed v r3)
              note l4 = parse_length(1) [OF Parsed]
              show ?thesis
              proof (cases "skipWs r3")
                case Nil
                with c1 q Some kr c2 col Parsed show ?thesis by simp
              next
                case c3: (Cons d r4)
                note l5 = skipWs_Cons_length [OF c3]
                show ?thesis
                  using "6.IH"(2) [OF c1 q Some [unfolded kr] refl c2 col Parsed c3]
                    "6.prems" l1 l2 l3 l4 l5
                  by (auto simp: c1 q Some kr c2 col Parsed c3)
              qed
            qed
          qed
        qed
      qed
    qed
  qed
qed

lemma JSON_parse_fuel: "parseValue (2 * length text + 1) text \<noteq> OutOfFuel"
  by (rule parse_fuel(1)) simp

text \<open>
  The equations of the parser for fuel written as a numeral, for evaluation by the
  simplifier, and three texts evaluated with them.
\<close>

lemma parseValue_numeral:
  "parseValue (numeral w) cs =
     (case skipWs cs of
        [] \<Rightarrow> SyntaxErr
      | c # r \<Rightarrow>
          if c = CHR 0x22 then
            (case parseChars r of
               None \<Rightarrow> SyntaxErr
             | Some (s, r') \<Rightarrow> Parsed (JString s) r')
          else if c = CHR ''['' then
            (if prefix '']'' (skipWs r) then Parsed (JArray []) (tl (skipWs r))
             else parseElements (pred_numeral w) [] r)
          else if c = CHR ''{'' then
            (if prefix ''}'' (skipWs r) then Parsed (JObject []) (tl (skipWs r))
             else parseMembers (pred_numeral w) [] r)
          else if c = CHR ''-'' \<or> isDigit c then parseNumber (c # r)
          else parseLiteral (c # r))"
  by (subst numeral_eq_Suc) (rule parseValue.simps)

lemma parseElements_numeral:
  "parseElements (numeral w) acc cs =
     (case parseValue (pred_numeral w) cs of
        Parsed v r \<Rightarrow>
          (case skipWs r of
             [] \<Rightarrow> SyntaxErr
           | d # r' \<Rightarrow>
               if d = CHR '','' then parseElements (pred_numeral w) (acc @ [v]) r'
               else if d = CHR '']'' then Parsed (JArray (acc @ [v])) r'
               else SyntaxErr)
      | OutOfFuel \<Rightarrow> OutOfFuel
      | SyntaxErr \<Rightarrow> SyntaxErr)"
  by (subst numeral_eq_Suc) (rule parseElements.simps)

lemma parseMembers_numeral:
  "parseMembers (numeral w) acc cs =
     (case skipWs cs of
        [] \<Rightarrow> SyntaxErr
      | q # r \<Rightarrow>
          if q \<noteq> CHR 0x22 then SyntaxErr
          else
            (case parseChars r of
               None \<Rightarrow> SyntaxErr
             | Some (k, r1) \<Rightarrow>
                 (case skipWs r1 of
                    [] \<Rightarrow> SyntaxErr
                  | col # r2 \<Rightarrow>
                      if col \<noteq> CHR '':'' then SyntaxErr
                      else
                        (case parseValue (pred_numeral w) r2 of
                           Parsed v r3 \<Rightarrow>
                             (case skipWs r3 of
                                [] \<Rightarrow> SyntaxErr
                              | d # r4 \<Rightarrow>
                                  if d = CHR '','' then parseMembers (pred_numeral w) (acc @ [(k, v)]) r4
                                  else if d = CHR ''}'' then Parsed (JObject (acc @ [(k, v)])) r4
                                  else SyntaxErr)
                         | OutOfFuel \<Rightarrow> OutOfFuel
                         | SyntaxErr \<Rightarrow> SyntaxErr))))"
  by (subst numeral_eq_Suc) (rule parseMembers.simps)


lemmas json_eval =
  JSON_parse_def parseValue_numeral parseElements_numeral parseMembers_numeral
  skipWs_def isJsonWhiteSpace_def isDigit_def isRadixDigit_def
  digitValue_def parseLiteral_def parseNumber_def numberLength_def intLength_def fracLength_def
  expLength_def digitsLength_def consChar_def unescape_def hex4_def digitsValue_def

lemma JSON_parse_malformed: "JSON_parse ''React, Node'' = Inl SyntaxError"
  by (simp add: json_eval)


lemma JSON_parse_obj:
  \<open>JSON_parse ''{"a": [1, -2.5e+3], "b": "xAy"}'' =
     Inr (JObject [(''a'', JArray [JNumber ''1'', JNumber ''-2.5e+3'']), (''b'', JString ''xAy'')])\<close>
  by (simp add: json_eval char_of_eq_iff)

section \<open>Properties of the filter engine\<close>

lemma passes_empty: "passes (clearFilters fs) job"
  by (simp add: passes_def clearFilters_def matchesSearch_def matchesLocation_def
      matchesEmploymentType_def matchesExperienceLevel_def matchesSalary_def)

lemma clearFilters_initial: "clearFilters fs = initialFilters"
  by (simp add: clearFilters_def initialFilters_def)

lemma filteredJobs_clear: "filteredJobs js (clearFilters fs) = js"
  by (simp add: filteredJobs_def passes_empty)

text \<open>
  Claim C7. With every predicate empty the visible list is the input list, unchanged.
  \<open>clearFilters\<close> sets all five predicates to the empty string at once, so after any
  sequence of predicate changes followed by a clear, the visible list is again the input.
\<close>

theorem computeVisible_identity:
  "filteredJobs js initialFilters = js \<and>
   clearFilters fs = initialFilters \<and>
   filteredJobs js (clearFilters (foldl applyChange fs changes)) = js"
proof -
  have "filteredJobs js (clearFilters fs) = js"
    by (rule filteredJobs_clear)
  then have "filteredJobs js initialFilters = js"
    by (simp only: clearFilters_initial)
  then show ?thesis
    by (simp add: filteredJobs_clear clearFilters_initial)
qed

lemma length_filter_mono:
  "(\<And>x. x \<in> set xs \<Longrightarrow> P x \<Longrightarrow> Q x) \<Longrightarrow> length (filter P xs) \<le> length (filter Q xs)"
  by (induction xs) auto

lemma passes_weaken:
  "passes (fs\<lparr>searchQuery := v\<rparr>) job \<Longrightarrow> searchQuery fs = '''' \<Longrightarrow> passes fs job"
  "passes (fs\<lparr>locationFilter := v\<rparr>) job \<Longrightarrow> locationFilter fs = '''' \<Longrightarrow> passes fs job"
  "passes (fs\<lparr>employmentTypeFilter := v\<rparr>) job \<Longrightarrow> employmentTypeFilter fs = '''' \<Longrightarrow> passes fs job"
  "passes (fs\<lparr>experienceLevelFilter := v\<rparr>) job \<Longrightarrow> experienceLevelFilter fs = '''' \<Longrightarrow> passes fs job"
  "passes (fs\<lparr>salaryMinFilter := v\<rparr>) job \<Longrightarrow> salaryMinFilter fs = '''' \<Longrightarrow> passes fs job"
  by (simp_all add: passes_def matchesSearch_def matchesLocation_def
      matchesEmploymentType_def matchesExperienceLevel_def matchesSalary_def)

text \<open>
  Claim C8. Making one more predicate active, from empty to any value while the other
  four stay as they are, never makes the visible list longer. One conjunct for each of
  the five predicates.
\<close>

theorem computeVisible_monotonic:
  "(searchQuery fs = '''' \<longrightarrow>
      length (filteredJobs js (fs\<lparr>searchQuery := v\<rparr>)) \<le> length (filteredJobs js fs)) \<and>
   (locationFilter fs = '''' \<longrightarrow>
      length (filteredJobs js (fs\<lparr>locationFilter := v\<rparr>)) \<le> length (filteredJobs js fs)) \<and>
   (employmentTypeFilter fs = '''' \<longrightarrow>
      length (filteredJobs js (fs\<lparr>employmentTypeFilter := v\<rparr>)) \<le> length (filteredJobs js fs)) \<and>
   (experienceLevelFilter fs = '''' \<longrightarrow>
      length (filteredJobs js (fs\<lparr>experienceLevelFilter := v\<rparr>)) \<le> length (filteredJobs js fs)) \<and>
   (salaryMinFilter fs = '''' \<longrightarrow>
      length (filteredJobs js (fs\<lparr>salaryMinFilter := v\<rparr>)) \<le> length (filteredJobs js fs))"
  unfolding filteredJobs_def
  by (intro conjI impI length_filter_mono; erule passes_weaken; assumption)

text \<open>
  Claim C8 from the initial filters, where all five predicates are empty, on two jobs of
  which one is remote.
\<close>

theorem computeVisible_monotonic_witness:
  "searchQuery initialFilters = '''' \<and> locationFilter initialFilters = '''' \<and>
   employmentTypeFilter initialFilters = '''' \<and> experienceLevelFilter initialFilters = '''' \<and>
   salaryMinFilter initialFilters = '''' \<and>
   length (filteredJobs [exampleJob, exampleJob\<lparr>location := ''Berlin''\<rparr>]
     (initialFilters\<lparr>searchQuery := ''Remote''\<rparr>)) \<le> 2 \<and>
   length (filteredJobs [exampleJob, exampleJob\<lparr>location := ''Berlin''\<rparr>]
     (initialFilters\<lparr>locationFilter := ''Remote''\<rparr>)) \<le> 2 \<and>
   length (filteredJobs [exampleJob, exampleJob\<lparr>location := ''Berlin''\<rparr>]
     (initialFilters\<lparr>employmentTypeFilter := ''Remote''\<rparr>)) \<le> 2 \<and>
   length (filteredJobs [exampleJob, exampleJob\<lparr>location := ''Berlin''\<rparr>]
     (initialFilters\<lparr>experienceLevelFilter := ''Remote''\<rparr>)) \<le> 2 \<and>
   length (filteredJobs [exampleJob, exampleJob\<lparr>location := ''Berlin''\<rparr>]
     (initialFilters\<lparr>salaryMinFilter := ''Remote''\<rparr>)) \<le> 2"
proof -
  have e: "searchQuery initialFilters = ''''" "locationFilter initialFilters = ''''"
    "employmentTypeFilter initialFilters = ''''" "experienceLevelFilter initialFilters = ''''"
    "salaryMinFilter initialFilters = ''''"
    by (simp_all add: initialFilters_def)
  have l: "length (filteredJobs [exampleJob, exampleJob\<lparr>location := ''Berlin''\<rparr>]
      initialFilters) = 2"
    using filteredJobs_clear [of "[exampleJob, exampleJob\<lparr>location := ''Berlin''\<rparr>]"
        initialFilters]
    by (simp add: clearFilters_initial)
  show ?thesis
    using computeVisible_monotonic [of initialFilters
        "[exampleJob, exampleJob\<lparr>location := ''Berlin''\<rparr>]" "''Remote''"] e
    unfolding l by blast
qed











section \<open>Properties of saving and loading\<close>

text \<open>
  Claim C1 as stated fails: the update is not optimistic. Alice is signed in and has
  nothing saved; after \<open>handleSaveJob\<close> has issued the store's \<open>create\<close> and before that call
  settles, \<open>isJobSaved\<close> is still false.
\<close>

theorem toggleSave_not_optimistic_counterexample:
  "user (signedIn alice []) = Some alice \<and>
   \<not> isJobSaved (savedJobs (signedIn alice [])) ''job_1'' \<and>
   fst (snd (handleSaveJob_call (signedIn alice []) ''job_1'' ''1700000000000'' ''k3j9x2m1q'')) = AwaitCreate \<and>
   \<not> isJobSaved (savedJobs (fst (handleSaveJob_call (signedIn alice []) ''job_1'' ''1700000000000'' ''k3j9x2m1q''))) ''job_1''"
  by (simp add: handleSaveJob_call_def signedIn_def isJobSaved_def)

lemma find_None_isJobSaved:
  "find (\<lambda>save. jobId save = jid) marks = None \<longleftrightarrow> \<not> isJobSaved marks jid"
  by (auto simp: isJobSaved_def find_None_iff list_ex_iff)

lemma handleSaveJob_call_signedOut:
  "user s = None \<Longrightarrow> handleSaveJob_call s jid now rnd = (s, Returned, [])"
  by (simp add: handleSaveJob_call_def)

lemma handleSaveJob_call_unsaved:
  "user s = Some u \<Longrightarrow> \<not> isJobSaved (savedJobs s) jid \<Longrightarrow>
   handleSaveJob_call s jid now rnd =
     (s, AwaitCreate, [CreateSavedJob (newSaveId now rnd) jid (uid u)])"
  using find_None_isJobSaved [of jid "savedJobs s"] by (simp add: handleSaveJob_call_def)

lemma handleSaveJob_call_saved:
  "user s = Some u \<Longrightarrow> find (\<lambda>save. jobId save = jid) (savedJobs s) = Some m \<Longrightarrow>
   handleSaveJob_call s jid now rnd = (s, AwaitDelete m, [DeleteSavedJob (save_id m)])"
  by (simp add: handleSaveJob_call_def)

lemma handleSaveJob_call_state: "fst (handleSaveJob_call s jid now rnd) = s"
  by (simp add: handleSaveJob_call_def split: option.splits)

lemma handleSaveJob_unfold:
  "handleSaveJob_call s jid now rnd = (s1, pending, issued) \<Longrightarrow>
   handleSaveJob s jid now rnd reply =
     (fst (handleSaveJob_settle pending reply s1),
      issued @ snd (handleSaveJob_settle pending reply s1))"
  by (simp add: handleSaveJob_def split: prod.splits)

lemma isJobSaved_append:
  "isJobSaved (marks @ [m]) jid \<longleftrightarrow> isJobSaved marks jid \<or> jobId m = jid"
  by (auto simp: isJobSaved_def list_ex_iff)

text \<open>
  Claim C1, amended. For a signed-in user and a job that is not saved, \<open>handleSaveJob\<close>
  issues a \<open>create\<close> with the new identity, the job id and the user's id, and leaves the
  local state as it is while the call is pending: \<open>isJobSaved\<close> stays false. When the
  \<open>create\<close> fulfils, the mark the store returned, with the store's identity, is appended
  to the saved list of that moment, and \<open>isJobSaved\<close> is true for the job id of that mark;
  when the store echoes the job id, \<open>isJobSaved\<close> of the toggled job is true after the toggle.
\<close>

theorem toggleSave_unsaved:
  "user s = Some u \<and> \<not> isJobSaved (savedJobs s) jid \<longrightarrow>
     handleSaveJob_call s jid now rnd =
       (s, AwaitCreate, [CreateSavedJob (''save_'' @ now @ ''_'' @ rnd) jid (uid u)]) \<and>
     \<not> isJobSaved (savedJobs (fst (handleSaveJob_call s jid now rnd))) jid \<and>
     handleSaveJob_settle AwaitCreate (Fulfilled (Some newSave)) s' =
       (s'\<lparr>savedJobs := savedJobs s' @ [formatSavedJob newSave]\<rparr>, jobSaved) \<and>
     save_id (last (savedJobs (fst (handleSaveJob_settle AwaitCreate (Fulfilled (Some newSave)) s'))))
       = saved_id newSave \<and>
     isJobSaved (savedJobs (fst (handleSaveJob_settle AwaitCreate (Fulfilled (Some newSave)) s')))
       (job_id newSave) \<and>
     (job_id newSave = jid \<longrightarrow>
        isJobSaved (savedJobs (fst (handleSaveJob s jid now rnd (Fulfilled (Some newSave))))) jid)"
proof (intro impI, elim conjE)
  assume u: "user s = Some u" and n: "\<not> isJobSaved (savedJobs s) jid"
  have c: "handleSaveJob_call s jid now rnd =
       (s, AwaitCreate, [CreateSavedJob (''save_'' @ now @ ''_'' @ rnd) jid (uid u)])"
    using handleSaveJob_call_unsaved [OF u n] by (simp add: newSaveId_def)
  have k: "jobId (formatSavedJob newSave) = job_id newSave"
    "save_id (formatSavedJob newSave) = saved_id newSave"
    by (simp_all add: formatSavedJob_def)
  show "handleSaveJob_call s jid now rnd =
       (s, AwaitCreate, [CreateSavedJob (''save_'' @ now @ ''_'' @ rnd) jid (uid u)]) \<and>
     \<not> isJobSaved (savedJobs (fst (handleSaveJob_call s jid now rnd))) jid \<and>
     handleSaveJob_settle AwaitCreate (Fulfilled (Some newSave)) s' =
       (s'\<lparr>savedJobs := savedJobs s' @ [formatSavedJob newSave]\<rparr>, jobSaved) \<and>
     save_id (last (savedJobs (fst (handleSaveJob_settle AwaitCreate (Fulfilled (Some newSave)) s'))))
       = saved_id newSave \<and>
     isJobSaved (savedJobs (fst (handleSaveJob_settle AwaitCreate (Fulfilled (Some newSave)) s')))
       (job_id newSave) \<and>
     (job_id newSave = jid \<longrightarrow>
        isJobSaved (savedJobs (fst (handleSaveJob s jid now rnd (Fulfilled (Some newSave))))) jid)"
    using n by (simp add: c handleSaveJob_unfold [OF c] isJobSaved_append k)
qed

text \<open>Claim C1, amended, for Alice saving \<open>job_1\<close>.\<close>

theorem toggleSave_unsaved_witness:
  "user (signedIn alice []) = Some alice \<and>
   \<not> isJobSaved (savedJobs (signedIn alice [])) ''job_1'' \<and>
   handleSaveJob_call (signedIn alice []) ''job_1'' ''1700000000000'' ''k3j9x2m1q'' =
     (signedIn alice [], AwaitCreate,
      [CreateSavedJob ''save_1700000000000_k3j9x2m1q'' ''job_1'' ''user_alice'']) \<and>
   job_id aliceRow = ''job_1'' \<and>
   fst (handleSaveJob (signedIn alice []) ''job_1'' ''1700000000000'' ''k3j9x2m1q''
          (Fulfilled (Some aliceRow))) = signedIn alice [aliceMark] \<and>
   isJobSaved (savedJobs (fst (handleSaveJob (signedIn alice []) ''job_1'' ''1700000000000''
          ''k3j9x2m1q'' (Fulfilled (Some aliceRow))))) ''job_1''"
proof -
  have u: "user (signedIn alice []) = Some alice"
    by (simp add: signedIn_def)
  have n: "\<not> isJobSaved (savedJobs (signedIn alice [])) ''job_1''"
    by (simp add: signedIn_def isJobSaved_def)
  have j: "job_id aliceRow = ''job_1''"
    by (simp add: aliceRow_def)
  note t = toggleSave_unsaved [of "signedIn alice []" alice "''job_1''" "''1700000000000''"
      "''k3j9x2m1q''" aliceRow "signedIn alice []"]
  have c: "handleSaveJob_call (signedIn alice []) ''job_1'' ''1700000000000'' ''k3j9x2m1q'' =
     (signedIn alice [], AwaitCreate,
      [CreateSavedJob ''save_1700000000000_k3j9x2m1q'' ''job_1'' ''user_alice''])"
    using t u n by (simp add: alice_def)
  have s: "isJobSaved (savedJobs (fst (handleSaveJob (signedIn alice []) ''job_1''
          ''1700000000000'' ''k3j9x2m1q'' (Fulfilled (Some aliceRow))))) ''job_1''"
    using t u n j by simp
  have e: "fst (handleSaveJob (signedIn alice []) ''job_1'' ''1700000000000'' ''k3j9x2m1q''
          (Fulfilled (Some aliceRow))) = signedIn alice [aliceMark]"
    using handleSaveJob_unfold [OF c, of "Fulfilled (Some aliceRow)"]
    by (simp add: signedIn_def formatSavedJob_def aliceRow_def aliceMark_def)
  from u n c j e s show ?thesis
    by blast
qed

text \<open>
  Claim C3 as stated fails on its first half: with no user, \<open>handleSaveJob\<close> returns at
  \<open>if (!user) return\<close>. It reports nothing, no \<open>NotAuthenticated\<close> and no other error: it
  has no effect at all.
\<close>

theorem toggleSave_signedOut_counterexample:
  "user (signedOut [aliceMark]) = None \<and>
   snd (handleSaveJob (signedOut [aliceMark]) ''job_1'' ''1700000000000'' ''k3j9x2m1q''
          (Fulfilled None)) = [] \<and>
   filter isError (snd (handleSaveJob (signedOut [aliceMark]) ''job_1'' ''1700000000000''
          ''k3j9x2m1q'' (Fulfilled None))) = []"
  by (simp add: handleSaveJob_def handleSaveJob_call_def signedOut_def)

text \<open>
  Claim C3, amended. With no user, \<open>handleSaveJob\<close> returns at once, without a result and
  without a notification, and changes nothing: the state is the same and no store call is
  issued.
\<close>

theorem toggleSave_signedOut:
  "user s = None \<longrightarrow>
     handleSaveJob_call s jid now rnd = (s, Returned, []) \<and>
     handleSaveJob s jid now rnd reply = (s, [])"
  by (simp add: handleSaveJob_def handleSaveJob_call_def)

text \<open>Claim C3, amended, in a signed-out state that still holds a mark.\<close>

theorem toggleSave_signedOut_witness:
  "user (signedOut [aliceMark]) = None \<and>
   handleSaveJob_call (signedOut [aliceMark]) ''job_1'' ''1700000000000'' ''k3j9x2m1q'' =
     (signedOut [aliceMark], Returned, []) \<and>
   handleSaveJob (signedOut [aliceMark]) ''job_1'' ''1700000000000'' ''k3j9x2m1q'' Rejected =
     (signedOut [aliceMark], [])"
proof -
  have u: "user (signedOut [aliceMark]) = None"
    by (simp add: signedOut_def)
  show ?thesis
    using toggleSave_signedOut [of "signedOut [aliceMark]" "''job_1''" "''1700000000000''"
        "''k3j9x2m1q''" Rejected] u
    by blast
qed

lemma handleSaveJob_settle_Rejected:
  "handleSaveJob_settle pending Rejected s = (s, if pending = Returned then [] else saveFailed)"
  by (cases pending) simp_all

lemma handleSaveJob_Rejected_state: "fst (handleSaveJob s jid now rnd Rejected) = s"
proof -
  obtain s1 pending issued where c: "handleSaveJob_call s jid now rnd = (s1, pending, issued)"
    by (cases "handleSaveJob_call s jid now rnd") auto
  have "s1 = s"
    using handleSaveJob_call_state [of s jid now rnd] c by simp
  then show ?thesis
    by (simp add: handleSaveJob_unfold [OF c] handleSaveJob_settle_Rejected)
qed

lemma isJobSaved_find:
  "isJobSaved marks jid \<Longrightarrow>
   \<exists>m \<in> set marks. jobId m = jid \<and> find (\<lambda>save. jobId save = jid) marks = Some m"
  by (induction marks) (auto simp: isJobSaved_def)


text \<open>
  Claim C6. A store call that fails leaves the local state as it was. \<open>handleSaveJob\<close>
  changes nothing before its store call settles and nothing when the call is rejected,
  so after a rejected toggle the state is the state before it. For a saved job the
  rejected call is the \<open>delete\<close> of its mark, the error is shown and \<open>isJobSaved\<close> is still
  true; for an unsaved job it is the \<open>create\<close>. A load of jobs that fails, by the store or
  by a row that cannot be formatted, shows the error and keeps the jobs; a rejected load
  of saved jobs keeps the state.
\<close>

theorem failed_store_call_keeps_state:
  "fst (handleSaveJob_call s jid now rnd) = s \<and>
   fst (handleSaveJob_settle pending Rejected s') = s' \<and>
   fst (handleSaveJob s jid now rnd Rejected) = s \<and>
   (user s = Some u \<and> isJobSaved (savedJobs s) jid \<longrightarrow>
      (\<exists>m \<in> set (savedJobs s). jobId m = jid \<and>
         handleSaveJob s jid now rnd Rejected = (s, DeleteSavedJob (save_id m) # saveFailed)) \<and>
      isJobSaved (savedJobs (fst (handleSaveJob s jid now rnd Rejected))) jid) \<and>
   (user s = Some u \<and> \<not> isJobSaved (savedJobs s) jid \<longrightarrow>
      handleSaveJob s jid now rnd Rejected =
        (s, CreateSavedJob (newSaveId now rnd) jid (uid u) # saveFailed)) \<and>
   loadJobs Rejected s = (s, ListJobs # loadJobsFailed) \<and>
   (formatJobs rows = Inl e \<longrightarrow> loadJobs (Fulfilled rows) s = (s, ListJobs # loadJobsFailed)) \<and>
   fst (loadSavedJobs Rejected s) = s"
proof -
  have a: "user s = Some u \<and> isJobSaved (savedJobs s) jid \<longrightarrow>
      (\<exists>m \<in> set (savedJobs s). jobId m = jid \<and>
         handleSaveJob s jid now rnd Rejected = (s, DeleteSavedJob (save_id m) # saveFailed))"
  proof (intro impI, elim conjE)
    assume u: "user s = Some u" and i: "isJobSaved (savedJobs s) jid"
    from isJobSaved_find [OF i] obtain m where m: "m \<in> set (savedJobs s)" "jobId m = jid"
      "find (\<lambda>save. jobId save = jid) (savedJobs s) = Some m"
      by blast
    have "handleSaveJob s jid now rnd Rejected = (s, DeleteSavedJob (save_id m) # saveFailed)"
      by (simp add: handleSaveJob_unfold [OF handleSaveJob_call_saved [OF u m(3)]])
    with m show "\<exists>m \<in> set (savedJobs s). jobId m = jid \<and>
         handleSaveJob s jid now rnd Rejected = (s, DeleteSavedJob (save_id m) # saveFailed)"
      by blast
  qed
  have b: "user s = Some u \<and> \<not> isJobSaved (savedJobs s) jid \<longrightarrow>
      handleSaveJob s jid now rnd Rejected =
        (s, CreateSavedJob (newSaveId now rnd) jid (uid u) # saveFailed)"
    by (auto simp: handleSaveJob_unfold [OF handleSaveJob_call_unsaved])
  have c: "loadJobs Rejected s = (s, ListJobs # loadJobsFailed)"
    "formatJobs rows = Inl e \<longrightarrow> loadJobs (Fulfilled rows) s = (s, ListJobs # loadJobsFailed)"
    "fst (loadSavedJobs Rejected s) = s"
    by (simp_all add: loadJobs_def loadSavedJobs_def split: option.splits)
  show ?thesis
    using a b c
    by (simp add: handleSaveJob_call_state handleSaveJob_settle_Rejected
        handleSaveJob_Rejected_state)
qed

text \<open>
  Claim C6 for Alice, whose \<open>job_1\<close> is saved: a rejected delete, and a load of jobs with
  a row whose tags are not JSON.
\<close>

theorem failed_store_call_keeps_state_witness:
  "user (signedIn alice [aliceMark]) = Some alice \<and>
   isJobSaved (savedJobs (signedIn alice [aliceMark])) ''job_1'' \<and>
   handleSaveJob (signedIn alice [aliceMark]) ''job_1'' ''1700000000000'' ''k3j9x2m1q'' Rejected =
     (signedIn alice [aliceMark], DeleteSavedJob ''save_1'' # saveFailed) \<and>
   isJobSaved (savedJobs (fst (handleSaveJob (signedIn alice [aliceMark]) ''job_1''
     ''1700000000000'' ''k3j9x2m1q'' Rejected))) ''job_1'' \<and>
   formatJobs [exampleRow\<lparr>row_tags := Some ''React, Node''\<rparr>] = Inl SyntaxError \<and>
   loadJobs (Fulfilled [exampleRow\<lparr>row_tags := Some ''React, Node''\<rparr>])
     (signedIn alice [aliceMark]) = (signedIn alice [aliceMark], ListJobs # loadJobsFailed)"
proof -
  have u: "user (signedIn alice [aliceMark]) = Some alice"
    by (simp add: signedIn_def)
  have i: "isJobSaved (savedJobs (signedIn alice [aliceMark])) ''job_1''"
    by (simp add: signedIn_def isJobSaved_def aliceMark_def)
  have f: "formatJobs [exampleRow\<lparr>row_tags := Some ''React, Node''\<rparr>] = Inl SyntaxError"
    by (simp add: formatJob_def parseTags_def JSON_parse_malformed)
  note t = failed_store_call_keeps_state [of "signedIn alice [aliceMark]" "''job_1''"
      "''1700000000000''" "''k3j9x2m1q''" _ _ alice
      "[exampleRow\<lparr>row_tags := Some ''React, Node''\<rparr>]" SyntaxError]
  have d: "handleSaveJob (signedIn alice [aliceMark]) ''job_1'' ''1700000000000'' ''k3j9x2m1q''
      Rejected = (signedIn alice [aliceMark], DeleteSavedJob ''save_1'' # saveFailed)"
    using t u i by (auto simp: signedIn_def aliceMark_def)
  have k: "isJobSaved (savedJobs (fst (handleSaveJob (signedIn alice [aliceMark]) ''job_1''
     ''1700000000000'' ''k3j9x2m1q'' Rejected))) ''job_1''"
    using t u i by blast
  have l: "loadJobs (Fulfilled [exampleRow\<lparr>row_tags := Some ''React, Node''\<rparr>])
     (signedIn alice [aliceMark]) = (signedIn alice [aliceMark], ListJobs # loadJobsFailed)"
    using t f by blast
  from u i d k f l show ?thesis
    by blast
qed

text \<open>
  Claim C5 as stated fails. Loading does not deduplicate: two rows of the store for the
  same user and job become two marks. And two toggles of one job that both start before
  either \<open>create\<close> settles both find the job unsaved, and both marks are appended.
\<close>

theorem savedJobs_duplicates_counterexample:
  "\<not> onePerPair (savedJobs (fst (loadSavedJobs (Fulfilled [aliceRow, aliceRow2])
        (signedIn alice [])))) \<and>
   fst (snd (handleSaveJob_call (signedIn alice []) ''job_1'' ''1700000000000'' ''k3j9x2m1q''))
     = AwaitCreate \<and>
   fst (snd (handleSaveJob_call (signedIn alice []) ''job_1'' ''1700000000001'' ''p0o9i8u7y''))
     = AwaitCreate \<and>
   \<not> onePerPair (savedJobs (fst (handleSaveJob_settle AwaitCreate (Fulfilled (Some aliceRow2))
        (fst (handleSaveJob_settle AwaitCreate (Fulfilled (Some aliceRow))
           (signedIn alice []))))))"
  by (simp add: loadSavedJobs_def handleSaveJob_call_def signedIn_def onePerPair_def
      formatSavedJob_def aliceRow_def aliceRow2_def)

lemma onePerPair_filter: "onePerPair marks \<Longrightarrow> onePerPair (filter P marks)"
  by (simp add: onePerPair_def distinct_map_filter)

lemma onePerPair_append:
  "onePerPair marks \<Longrightarrow> \<not> isJobSaved marks (jobId m) \<Longrightarrow> onePerPair (marks @ [m])"
  by (auto simp: onePerPair_def isJobSaved_def list_ex_iff)

text \<open>
  Claim C5, amended. A toggle that runs from its start to the settling of its store
  call with no other update in between, and whose \<open>create\<close>, when it fulfils with a row,
  gets back the job id it sent, keeps at most one mark for each pair of user and job.
  Loading the saved list for a signed-in user replaces it with one mark for each row the
  store returns, in the store's order, duplicates included.
\<close>

theorem toggleSave_onePerPair:
  "(onePerPair (savedJobs s) \<and>
    (case reply of Fulfilled (Some newSave) \<Rightarrow> job_id newSave = jid | _ \<Rightarrow> True) \<longrightarrow>
      onePerPair (savedJobs (fst (handleSaveJob s jid now rnd reply)))) \<and>
   (user s = Some u \<longrightarrow>
      savedJobs (fst (loadSavedJobs (Fulfilled rows) s)) = map formatSavedJob rows)"
proof -
  have "onePerPair (savedJobs (fst (handleSaveJob s jid now rnd reply)))"
    if inv: "onePerPair (savedJobs s)"
      and echo: "case reply of Fulfilled (Some newSave) \<Rightarrow> job_id newSave = jid | _ \<Rightarrow> True"
  proof (cases "user s")
    case None
    then show ?thesis
      using inv by (simp add: handleSaveJob_unfold [OF handleSaveJob_call_signedOut])
  next
    case (Some u')
    show ?thesis
    proof (cases "find (\<lambda>save. jobId save = jid) (savedJobs s)")
      case None
      then have n: "\<not> isJobSaved (savedJobs s) jid"
        by (simp add: find_None_isJobSaved)
      note c = handleSaveJob_call_unsaved [OF Some n]
      show ?thesis
      proof (cases reply)
        case Rejected
        then show ?thesis
          using inv by (simp add: handleSaveJob_unfold [OF c])
      next
        case (Fulfilled v)
        show ?thesis
        proof (cases v)
          case None
          with Fulfilled show ?thesis
            using inv by (simp add: handleSaveJob_unfold [OF c])
        next
          case (Some newSave)
          with Fulfilled echo have "jobId (formatSavedJob newSave) = jid"
            by (simp add: formatSavedJob_def)
          with n inv have "onePerPair (savedJobs s @ [formatSavedJob newSave])"
            by (simp add: onePerPair_append)
          with Fulfilled Some show ?thesis
            by (simp add: handleSaveJob_unfold [OF c])
        qed
      qed
    next
      case (Some m)
      note c = handleSaveJob_call_saved [OF \<open>user s = Some u'\<close> Some]
      show ?thesis
        using inv by (cases reply) (simp_all add: handleSaveJob_unfold [OF c] onePerPair_filter)
    qed
  qed
  then show ?thesis
    by (simp add: loadSavedJobs_def)
qed

text \<open>Claim C5, amended, for Alice saving \<open>job_1\<close> and for a load of two rows.\<close>

theorem toggleSave_onePerPair_witness:
  "onePerPair (savedJobs (signedIn alice [])) \<and> job_id aliceRow = ''job_1'' \<and>
   onePerPair (savedJobs (fst (handleSaveJob (signedIn alice []) ''job_1'' ''1700000000000''
      ''k3j9x2m1q'' (Fulfilled (Some aliceRow))))) \<and>
   user (signedIn alice []) = Some alice \<and>
   savedJobs (fst (loadSavedJobs (Fulfilled [aliceRow, aliceRow2]) (signedIn alice []))) =
     [formatSavedJob aliceRow, formatSavedJob aliceRow2]"
proof -
  have a: "onePerPair (savedJobs (signedIn alice []))" "job_id aliceRow = ''job_1''"
    "user (signedIn alice []) = Some alice"
    by (simp_all add: signedIn_def onePerPair_def aliceRow_def)
  note t = toggleSave_onePerPair [where s = "signedIn alice []"
      and reply = "Fulfilled (Some aliceRow)" and jid = "''job_1''" and now = "''1700000000000''"
      and rnd = "''k3j9x2m1q''" and u = alice and rows = "[aliceRow, aliceRow2]"]
  show ?thesis
    using t a by simp
qed








end
